theory Spec2Isabelle
  imports Main "HOL-Library.Multiset" "HOL-Library.Char_ord" "HOL-Library.List_Lexorder"
begin

section \<open>Data model\<close>

text \<open>
  The persistence layer is a relational database reached through a query builder.
  Each table is a list of rows in storage order; a row is a record whose fields are the
  columns the source reads or writes. The table declarations themselves are not part of
  the sources at hand, so the columns are those named in
  \<^verbatim>\<open>SQLMatches/community/__init__.py\<close> and \<^verbatim>\<open>SQLMatches/routes/api/misc.py\<close>.
  Field names carry a one-letter table prefix: \<open>c_\<close> for \<^verbatim>\<open>community\<close>, \<open>k_\<close> for
  \<^verbatim>\<open>api_key\<close>, \<open>t_\<close> for \<^verbatim>\<open>scoreboard_total\<close>, \<open>s_\<close> for \<^verbatim>\<open>scoreboard\<close>,
  \<open>u_\<close> for \<^verbatim>\<open>user\<close> and \<open>up_\<close> for \<^verbatim>\<open>update\<close>. Timestamps are integers
  (a clock reading), identifiers and names are strings.
\<close>

record community_row =
  c_community_name :: string
  c_owner_id :: string
  c_disabled :: bool
  c_demos :: bool
  c_timestamp :: int

record api_key_row =
  k_api_key :: string
  k_owner_id :: string
  k_timestamp :: int
  k_community_name :: string
  k_master :: bool

text \<open>
  \<open>create_match\<close> writes twelve columns of \<^verbatim>\<open>scoreboard_total\<close>; the search branch of
  \<open>matches\<close> reads a thirteenth, \<^verbatim>\<open>name\<close>, that no insert of the source sets. It is kept
  as a nullable column (\<open>None\<close> is SQL NULL).
\<close>

record scoreboard_total_row =
  t_match_id :: string
  t_timestamp :: int
  t_status :: int
  t_demo_status :: int
  t_map :: string
  t_team_1_name :: string
  t_team_2_name :: string
  t_team_1_score :: int
  t_team_2_score :: int
  t_team_1_side :: int
  t_team_2_side :: int
  t_community_name :: string
  t_name :: "string option"

record scoreboard_row =
  s_match_id :: string
  s_steam_id :: string

record user_row =
  u_steam_id :: string
  u_name :: string

record update_row =
  up_version :: string
  up_message :: string

record database =
  community_table :: "community_row list"
  api_key_table :: "api_key_row list"
  scoreboard_total_table :: "scoreboard_total_row list"
  scoreboard_table :: "scoreboard_row list"
  user_table :: "user_row list"
  update_table :: "update_row list"

text \<open>
  Exceptions are values. The first five are the domain errors of
  \<^verbatim>\<open>community/exceptions.py\<close>; \<open>IntegrityError\<close> is the driver's report of a violated
  uniqueness constraint, \<open>OperationalError\<close> stands for any other failure of the
  persistence layer (a lost connection, a constraint of the absent schema), and
  \<open>AttributeError\<close> is Python's error for a missing attribute.
\<close>

datatype exn =
  CommunityTaken | AlreadyCommunity | InvalidCommunity | NoOwnership | InvalidAPIKey
  | IntegrityError | OperationalError | AttributeError

text \<open>The handles and views the operations return.\<close>

datatype Community = Community string

datatype Match = Match string string

record CommunityModel =
  api_key :: string
  owner_id :: string
  disabled :: bool
  community_name :: string

record MatchModel =
  match_id :: string
  timestamp :: int
  status :: int
  demo_status :: int
  map_name :: string
  team_1_name :: string
  team_2_name :: string
  team_1_score :: int
  team_2_score :: int
  team_1_side :: int
  team_2_side :: int

section \<open>Query primitives\<close>

text \<open>
  \<open>fetch_one\<close> gives the first row of a result or \<open>None\<close>; \<open>fetch_val\<close> gives the first
  column of the first row or \<open>None\<close> (the column is projected by the caller). A result
  without \<^verbatim>\<open>ORDER BY\<close> is taken in storage order. Reads and updates are taken to run
  without a failure of the persistence layer; the two inserts of \<open>create_community\<close>
  carry an explicit failure parameter.
\<close>

definition fetch_one :: "'a list \<Rightarrow> 'a option" where
  "fetch_one rows = (case rows of [] \<Rightarrow> None | r # _ \<Rightarrow> Some r)"

definition fetch_val :: "'a list \<Rightarrow> 'a option" where
  "fetch_val vals = (case vals of [] \<Rightarrow> None | v # _ \<Rightarrow> Some v)"

text \<open>The inner join of \<^verbatim>\<open>community\<close> and \<^verbatim>\<open>api_key\<close> on the community name.\<close>

definition join_community_api_key :: "database \<Rightarrow> (community_row \<times> api_key_row) list" where
  "join_community_api_key db =
     concat (map (\<lambda>c. map (\<lambda>k. (c, k))
                          (filter (\<lambda>k. k_community_name k = c_community_name c) (api_key_table db)))
                 (community_table db))"

section \<open>Community operations\<close>


text \<open>\<open>Community.get\<close>: the join restricted to this name and to master keys; no filter on
  the disabled flag.\<close>

fun Community_get :: "database \<Rightarrow> Community \<Rightarrow> exn + CommunityModel" where
  "Community_get db (Community n) =
     (case fetch_one (filter (\<lambda>(c, k). c_community_name c = n \<and> k_master k)
                             (join_community_api_key db)) of
        Some (c, k) \<Rightarrow>
          Inr \<lparr>api_key = k_api_key k, owner_id = k_owner_id k,
               disabled = c_disabled c, community_name = c_community_name c\<rparr>
      | None \<Rightarrow> Inl InvalidCommunity)"

text \<open>\<open>Community.disable\<close>: sets the flag on every row of this name.\<close>

fun Community_disable :: "database \<Rightarrow> Community \<Rightarrow> database" where
  "Community_disable db (Community n) =
     db\<lparr>community_table :=
          map (\<lambda>c. if c_community_name c = n then c\<lparr>c_disabled := True\<rparr> else c)
              (community_table db)\<rparr>"

text \<open>
  \<open>Community.regenerate\<close> and \<open>Community.regenerate_master\<close>. The token drawn by
  \<^verbatim>\<open>token_urlsafe(24)\<close> is the parameter \<open>key\<close>; the result is the returned key and the
  database after the update.
\<close>

fun Community_regenerate :: "database \<Rightarrow> Community \<Rightarrow> string \<Rightarrow> string \<Rightarrow> string \<times> database" where
  "Community_regenerate db (Community n) old_key key =
     (key, db\<lparr>api_key_table :=
                map (\<lambda>k. if k_community_name k = n \<and> k_api_key k = old_key
                          then k\<lparr>k_api_key := key\<rparr> else k)
                    (api_key_table db)\<rparr>)"

fun Community_regenerate_master :: "database \<Rightarrow> Community \<Rightarrow> string \<Rightarrow> string \<times> database" where
  "Community_regenerate_master db (Community n) key =
     (key, db\<lparr>api_key_table :=
                map (\<lambda>k. if k_community_name k = n \<and> k_master k
                          then k\<lparr>k_api_key := key\<rparr> else k)
                    (api_key_table db)\<rparr>)"

section \<open>Directory-level lookups\<close>

text \<open>\<open>api_key_to_community\<close>: the join restricted to the key and to enabled communities.\<close>

definition api_key_to_community :: "database \<Rightarrow> string \<Rightarrow> exn + (Community \<times> bool)" where
  "api_key_to_community db key =
     (case fetch_one (filter (\<lambda>(c, k). k_api_key k = key \<and> \<not> c_disabled c)
                             (join_community_api_key db)) of
        Some (c, k) \<Rightarrow> Inr (Community (c_community_name c), k_master k)
      | None \<Rightarrow> Inl InvalidAPIKey)"


definition owner_exists :: "database \<Rightarrow> string \<Rightarrow> bool" where
  "owner_exists db steam_id =
     (length (filter (\<lambda>c. c_owner_id c = steam_id \<and> \<not> c_disabled c) (community_table db)) > 0)"

section \<open>Creating communities and matches\<close>

text \<open>
  Modelled from the spec: the table declarations (\<^verbatim>\<open>tables.py\<close>) are missing; the spec's
  data model identifies a community by a unique name, so the insert into \<^verbatim>\<open>community\<close>
  is rejected with \<open>IntegrityError\<close> when the name is already stored. Any other failure of
  the persistence layer during the statement is the parameter \<open>fault\<close>: \<open>Some e\<close> means
  that \<^verbatim>\<open>execute\<close> raised \<open>e\<close> and wrote nothing.
\<close>

definition insert_community :: "database \<Rightarrow> exn option \<Rightarrow> community_row \<Rightarrow> exn + database" where
  "insert_community db fault row =
     (case fault of
        Some e \<Rightarrow> Inl e
      | None \<Rightarrow>
          if c_community_name row \<in> set (map c_community_name (community_table db))
          then Inl IntegrityError
          else Inr (db\<lparr>community_table := community_table db @ [row]\<rparr>))"

definition insert_api_key :: "database \<Rightarrow> exn option \<Rightarrow> api_key_row \<Rightarrow> exn + database" where
  "insert_api_key db fault row =
     (case fault of
        Some e \<Rightarrow> Inl e
      | None \<Rightarrow> Inr (db\<lparr>api_key_table := api_key_table db @ [row]\<rparr>))"

text \<open>
  \<open>create_community\<close>. \<open>fault_c\<close> and \<open>fault_k\<close> are the failures of the two inserts,
  \<open>now_c\<close> and \<open>now_k\<close> the two clock readings, \<open>token\<close> the value drawn by
  \<^verbatim>\<open>token_urlsafe(24)\<close>. The result pairs what the call returns or raises with the
  database it leaves behind. The \<^verbatim>\<open>except Exception\<close> clause around the first insert
  turns every exception into \<open>CommunityTaken\<close>; the second insert is outside of it.
\<close>

definition create_community ::
  "database \<Rightarrow> exn option \<Rightarrow> exn option \<Rightarrow> int \<Rightarrow> int \<Rightarrow> string \<Rightarrow>
   string \<Rightarrow> string \<Rightarrow> bool \<Rightarrow> bool \<Rightarrow> (exn + (CommunityModel \<times> Community)) \<times> database" where
  "create_community db fault_c fault_k now_c now_k token steam_id name dis dem =
     (if owner_exists db steam_id then (Inl AlreadyCommunity, db)
      else
        case insert_community db fault_c
               \<lparr>c_community_name = name, c_owner_id = steam_id, c_disabled = dis,
                c_demos = dem, c_timestamp = now_c\<rparr> of
          Inl e \<Rightarrow> (Inl CommunityTaken, db)
        | Inr db1 \<Rightarrow>
            (case insert_api_key db1 fault_k
                    \<lparr>k_api_key = token, k_owner_id = steam_id, k_timestamp = now_k,
                     k_community_name = name, k_master = True\<rparr> of
               Inl e \<Rightarrow> (Inl e, db1)
             | Inr db2 \<Rightarrow>
                 (Inr (\<lparr>api_key = token, owner_id = steam_id, disabled = dis,
                        community_name = name\<rparr>, Community name), db2)))"

text \<open>
  \<open>Community.create_match\<close>: \<open>uuid\<close> is the value of \<^verbatim>\<open>uuid4()\<close>, \<open>now\<close> the clock
  reading. The insert names twelve columns; \<^verbatim>\<open>name\<close> is not among them and stays NULL.
\<close>

fun Community_create_match ::
  "database \<Rightarrow> Community \<Rightarrow> string \<Rightarrow> int \<Rightarrow> string \<Rightarrow> string \<Rightarrow> int \<Rightarrow> int \<Rightarrow> int \<Rightarrow> int \<Rightarrow>
   string \<Rightarrow> Match \<times> database" where
  "Community_create_match db (Community n) uuid now t1_name t2_name t1_side t2_side
       t1_score t2_score mp =
     (Match uuid n,
      db\<lparr>scoreboard_total_table := scoreboard_total_table db @
           [\<lparr>t_match_id = uuid, t_timestamp = now, t_status = 1, t_demo_status = 0,
             t_map = mp, t_team_1_name = t1_name, t_team_2_name = t2_name,
             t_team_1_score = t1_score, t_team_2_score = t2_score,
             t_team_1_side = t1_side, t_team_2_side = t2_side,
             t_community_name = n, t_name = None\<rparr>]\<rparr>)"

section \<open>Listing matches\<close>

text \<open>The eleven selected columns of a \<^verbatim>\<open>scoreboard_total\<close> row.\<close>

definition MatchModel_of :: "scoreboard_total_row \<Rightarrow> MatchModel" where
  "MatchModel_of t =
     \<lparr>match_id = t_match_id t, timestamp = t_timestamp t, status = t_status t,
      demo_status = t_demo_status t, map_name = t_map t,
      team_1_name = t_team_1_name t, team_2_name = t_team_2_name t,
      team_1_score = t_team_1_score t, team_2_score = t_team_2_score t,
      team_1_side = t_team_1_side t, team_2_side = t_team_2_side t\<rparr>"

text \<open>\<^verbatim>\<open>ORDER BY timestamp DESC\<close> or \<^verbatim>\<open>ASC\<close>, as a stable sort of the rows.\<close>

definition order_by_timestamp :: "bool \<Rightarrow> MatchModel list \<Rightarrow> MatchModel list" where
  "order_by_timestamp desc rows =
     (if desc then sort_key (\<lambda>m. - timestamp m) rows else sort_key timestamp rows)"

text \<open>
  \<^verbatim>\<open>LIMIT lim OFFSET off\<close>. The source hands both bounds to the statement unchecked.
  A negative \<^verbatim>\<open>LIMIT\<close> puts no bound on the number of rows and a negative
  \<^verbatim>\<open>OFFSET\<close> skips none, as in SQLite.
\<close>

definition limit_offset :: "int \<Rightarrow> int \<Rightarrow> 'a list \<Rightarrow> 'a list" where
  "limit_offset lim off rows =
     (let skipped = drop (nat off) rows
      in if lim < 0 then skipped else take (nat lim) skipped)"

text \<open>The three-way inner join of the search branch.\<close>

definition join_totals_players ::
  "database \<Rightarrow> (scoreboard_total_row \<times> scoreboard_row \<times> user_row) list" where
  "join_totals_players db =
     concat (map (\<lambda>t.
       concat (map (\<lambda>s. map (\<lambda>u. (t, s, u))
                            (filter (\<lambda>u. u_steam_id u = s_steam_id s) (user_table db)))
                   (filter (\<lambda>s. s_match_id s = t_match_id t) (scoreboard_table db))))
       (scoreboard_total_table db))"

text \<open>
  \<open>Community.matches\<close>. Two facts of the environment are parameters: \<open>has_name\<close> says
  whether \<^verbatim>\<open>scoreboard_total\<close> declares the column \<^verbatim>\<open>name\<close> that the search branch
  reads (the query builder raises \<open>AttributeError\<close> for an undeclared column), and
  \<open>like v p\<close> is the engine's \<^verbatim>\<open>LIKE\<close> on value \<open>v\<close> and pattern \<open>p\<close>. The branch is
  taken on the truthiness of \<open>search\<close>: \<open>None\<close> and the empty string both go to the
  \<^verbatim>\<open>else\<close> branch. Each row is yielded with a handle on its match.
\<close>

fun Community_matches ::
  "bool \<Rightarrow> (string \<Rightarrow> string \<Rightarrow> bool) \<Rightarrow> database \<Rightarrow> Community \<Rightarrow> string option \<Rightarrow>
   int \<Rightarrow> int \<Rightarrow> bool \<Rightarrow> exn + (MatchModel \<times> Match) list" where
  "Community_matches has_name like db (Community n) search page limit desc =
     (let off = (if page > 1 then (page - 1) * limit else 0);
          selected =
            (case search of
               Some (ch # chs) \<Rightarrow>
                 (let term = ch # chs; like_search = ''%'' @ term @ ''%'' in
                  if \<not> has_name then Inl AttributeError
                  else Inr (remdups (map (\<lambda>(t, s, u). MatchModel_of t)
                         (filter (\<lambda>(t, s, u).
                              t_name t = Some n \<and>
                              (t_match_id t = term \<or> like (t_map t) like_search \<or>
                               like (t_team_1_name t) like_search \<or>
                               like (t_team_2_name t) like_search \<or>
                               like (u_name u) like_search \<or> u_steam_id u = term))
                            (join_totals_players db)))))
             | _ \<Rightarrow>
                 Inr (map MatchModel_of
                        (filter (\<lambda>t. t_community_name t = n) (scoreboard_total_table db))))
      in case selected of
           Inl e \<Rightarrow> Inl e
         | Inr rows \<Rightarrow>
             Inr (map (\<lambda>m. (m, Match (match_id m) n))
                    (limit_offset limit off (order_by_timestamp desc rows))))"

section \<open>The version-check endpoint\<close>

text \<open>
  The values that travel through the cache and the response body, with Python's
  truthiness: \<open>None\<close>, the empty string and the empty dictionary are falsy.
\<close>

datatype json = JNone | JStr string | JDict "(string \<times> json) list"

fun truthy :: "json \<Rightarrow> bool" where
  "truthy JNone = False"
| "truthy (JStr s) = (s \<noteq> [])"
| "truthy (JDict kvs) = (kvs \<noteq> [])"

datatype http_response = response json | error_response string

text \<open>
  Modelled from the spec: \<^verbatim>\<open>VersionCache\<close> (\<^verbatim>\<open>caches.py\<close>) is missing; the spec describes
  the cache as a key-value lookup keyed by the version string, \<open>get\<close> giving the stored
  value or nothing and \<open>set\<close> storing a value. Expiry is left out.
\<close>

type_synonym version_cache = "string \<rightharpoonup> json"

definition cache_get_of :: "version_cache \<Rightarrow> string \<Rightarrow> json" where
  "cache_get_of cache version = (case cache version of None \<Rightarrow> JNone | Some v \<Rightarrow> v)"

text \<open>
  The query of \<open>VersionAPI.get\<close>. The source calls \<^verbatim>\<open>select_form\<close> on the select
  statement; \<open>has_select_form\<close> says whether the query builder has an attribute of that
  name (taken to act as \<^verbatim>\<open>select_from\<close>), and without it the call raises
  \<open>AttributeError\<close>. The condition is \<^verbatim>\<open>update.version >= version\<close> on strings, and
  \<open>fetch_val\<close> takes the message of the first row.
\<close>

definition fetch_update_message :: "bool \<Rightarrow> database \<Rightarrow> string \<Rightarrow> exn + json" where
  "fetch_update_message has_select_form db version =
     (if \<not> has_select_form then Inl AttributeError
      else Inr (case fetch_val (map up_message
                                   (filter (\<lambda>r. up_version r \<ge> version) (update_table db))) of
                  None \<Rightarrow> JNone
                | Some m \<Rightarrow> JStr m))"

text \<open>
  \<open>VersionAPI.get\<close>: the result is the response (or the exception) and the cache after
  the call. On a miss the dictionary that is cached and returned is built from
  \<open>cache_get\<close>, the value the cache lookup gave.
\<close>

definition VersionAPI_get ::
  "bool \<Rightarrow> version_cache \<Rightarrow> database \<Rightarrow> string \<Rightarrow> (exn + http_response) \<times> version_cache" where
  "VersionAPI_get has_select_form cache db version =
     (let cache_get = cache_get_of cache version in
      if truthy cache_get then (Inr (response cache_get), cache)
      else
        case fetch_update_message has_select_form db version of
          Inl e \<Rightarrow> (Inl e, cache)
        | Inr message \<Rightarrow>
            if truthy message then
              (let data = JDict [(''message'', cache_get)]
               in (Inr (response data), cache(version \<mapsto> data)))
            else (Inr (error_response ''InvalidVersion''), cache))"

section \<open>Invariants of the data model and predicates of the statements\<close>

text \<open>
  The data model gives three invariants of a stored database: key strings are globally
  unique, a community is identified by its name, and an owning identity has at most one
  community that is not disabled. They are predicates on the state, assumed where a
  statement needs them.
\<close>

definition keys_unique :: "database \<Rightarrow> bool" where
  "keys_unique db \<longleftrightarrow> distinct (map k_api_key (api_key_table db))"

definition names_unique :: "database \<Rightarrow> bool" where
  "names_unique db \<longleftrightarrow> distinct (map c_community_name (community_table db))"


text \<open>The identity owns a community that is not disabled.\<close>

definition owns_enabled :: "database \<Rightarrow> string \<Rightarrow> bool" where
  "owns_enabled db steam_id \<longleftrightarrow>
     (\<exists>c\<in>set (community_table db). c_owner_id c = steam_id \<and> \<not> c_disabled c)"

text \<open>A community row of name \<open>n\<close> joins with a master key row.\<close>

definition master_joined :: "database \<Rightarrow> string \<Rightarrow> bool" where
  "master_joined db n \<longleftrightarrow>
     (\<exists>c\<in>set (community_table db). \<exists>k\<in>set (api_key_table db).
        c_community_name c = n \<and> k_community_name k = n \<and> k_master k)"

text \<open>\<open>c\<close> is an enabled community that has a key row holding \<open>key\<close>.\<close>

definition key_of_enabled :: "database \<Rightarrow> string \<Rightarrow> community_row \<Rightarrow> bool" where
  "key_of_enabled db key c \<longleftrightarrow>
     c \<in> set (community_table db) \<and> \<not> c_disabled c \<and>
     (\<exists>k\<in>set (api_key_table db). k_api_key k = key \<and> k_community_name k = c_community_name c)"

text \<open>
  The summaries of the matches of community \<open>n\<close>, in storage order: for each row whose
  community is \<open>n\<close>, its identifier, timestamp, status, demo status, map, team names,
  scores and sides.
\<close>

definition community_matches :: "database \<Rightarrow> string \<Rightarrow> MatchModel list" where
  "community_matches db n =
     map (\<lambda>t. \<lparr>match_id = t_match_id t, timestamp = t_timestamp t, status = t_status t,
                demo_status = t_demo_status t, map_name = t_map t,
                team_1_name = t_team_1_name t, team_2_name = t_team_2_name t,
                team_1_score = t_team_1_score t, team_2_score = t_team_2_score t,
                team_1_side = t_team_1_side t, team_2_side = t_team_2_side t\<rparr>)
         (filter (\<lambda>t. t_community_name t = n) (scoreboard_total_table db))"

text \<open>The order of the listing: newest first when \<open>desc\<close>, oldest first otherwise.\<close>

definition in_order :: "bool \<Rightarrow> MatchModel \<Rightarrow> MatchModel \<Rightarrow> bool" where
  "in_order desc a b = (if desc then timestamp b \<le> timestamp a else timestamp a \<le> timestamp b)"

section \<open>Example databases\<close>

definition empty_db :: database where
  "empty_db = \<lparr>community_table = [], api_key_table = [], scoreboard_total_table = [],
               scoreboard_table = [], user_table = [], update_table = []\<rparr>"

text \<open>
  Keys have the shape of \<^verbatim>\<open>token_urlsafe(24)\<close> values (32 URL-safe characters), owners
  that of the identity provider's account numbers.
\<close>

definition key_1 :: string where
  "key_1 = ''K1aQ9xT4mZ7pL2vB8nC5dR0sW3yE6uHg''"

definition key_2 :: string where
  "key_2 = ''K2bR0yU5nA8qM3wC9oD6eS1tX4zF7vJh''"

definition key_3 :: string where
  "key_3 = ''K3cS1zV6oB9rN4xD0pE7fT2uY5aG8wKi''"

definition key_4 :: string where
  "key_4 = ''K4dT2aW7pC0sO5yE1qF8gU3vZ6bH9xLj''"

definition steam_1 :: string where
  "steam_1 = ''76561198000000001''"

definition steam_2 :: string where
  "steam_2 = ''76561198000000002''"

definition alpha_row :: community_row where
  "alpha_row = \<lparr>c_community_name = ''alpha'', c_owner_id = steam_1, c_disabled = False,
                c_demos = True, c_timestamp = 100\<rparr>"

definition alpha_master :: api_key_row where
  "alpha_master = \<lparr>k_api_key = key_1, k_owner_id = steam_1, k_timestamp = 101,
                   k_community_name = ''alpha'', k_master = True\<rparr>"

definition alpha_service :: api_key_row where
  "alpha_service = \<lparr>k_api_key = key_2, k_owner_id = steam_1, k_timestamp = 102,
                    k_community_name = ''alpha'', k_master = False\<rparr>"

definition db_alpha :: database where
  "db_alpha = empty_db\<lparr>community_table := [alpha_row],
                       api_key_table := [alpha_master, alpha_service]\<rparr>"

text \<open>
  A second enabled community of another owner whose master key row holds the same string
  as the master key row of the first.
\<close>

definition beta_row :: community_row where
  "beta_row = \<lparr>c_community_name = ''beta'', c_owner_id = steam_2, c_disabled = False,
               c_demos = True, c_timestamp = 200\<rparr>"

definition beta_shared :: api_key_row where
  "beta_shared = \<lparr>k_api_key = key_1, k_owner_id = steam_2, k_timestamp = 201,
                  k_community_name = ''beta'', k_master = True\<rparr>"

definition db_shared :: database where
  "db_shared = empty_db\<lparr>community_table := [alpha_row, beta_row],
                        api_key_table := [alpha_master, beta_shared]\<rparr>"

text \<open>
  An engine for the examples: a case-sensitive \<^verbatim>\<open>LIKE\<close> where \<^verbatim>\<open>%\<close> stands for any
  run of characters and \<^verbatim>\<open>_\<close> for any one character.
\<close>

fun like_match :: "string \<Rightarrow> string \<Rightarrow> bool" where
  "like_match [] [] = True"
| "like_match [] (v # vs) = False"
| "like_match (p # ps) [] = (p = CHR ''%'' \<and> like_match ps [])"
| "like_match (p # ps) (v # vs) =
     (if p = CHR ''%'' then like_match ps (v # vs) \<or> like_match (p # ps) vs
      else if p = CHR ''_'' then like_match ps vs
      else p = v \<and> like_match ps vs)"

definition example_like :: "string \<Rightarrow> string \<Rightarrow> bool" where
  "example_like v p = like_match p v"

text \<open>
  Match identifiers have the shape of \<^verbatim>\<open>uuid4()\<close> values; \<open>match_row\<close> is a row as
  \<open>create_match\<close> writes it, with status 1, demo status 0 and no \<^verbatim>\<open>name\<close>.
\<close>

definition uuid_n :: "string \<Rightarrow> string" where
  "uuid_n d = ''00000000-0000-4000-8000-0000000000'' @ d"

definition match_row :: "string \<Rightarrow> int \<Rightarrow> string \<Rightarrow> scoreboard_total_row" where
  "match_row d ts cn =
     \<lparr>t_match_id = uuid_n d, t_timestamp = ts, t_status = 1, t_demo_status = 0,
      t_map = ''de_dust2'', t_team_1_name = ''Red'', t_team_2_name = ''Blue'',
      t_team_1_score = 0, t_team_2_score = 0, t_team_1_side = 0, t_team_2_side = 1,
      t_community_name = cn, t_name = None\<rparr>"

text \<open>Twelve matches of the example community and one of another, in no particular order.\<close>

definition db_twelve :: database where
  "db_twelve = db_alpha\<lparr>scoreboard_total_table :=
     [match_row ''03'' 1003 ''alpha'', match_row ''01'' 1001 ''alpha'',
      match_row ''12'' 1012 ''alpha'', match_row ''07'' 1007 ''alpha'',
      match_row ''13'' 1013 ''beta'', match_row ''05'' 1005 ''alpha'',
      match_row ''10'' 1010 ''alpha'', match_row ''02'' 1002 ''alpha'',
      match_row ''09'' 1009 ''alpha'', match_row ''04'' 1004 ''alpha'',
      match_row ''11'' 1011 ''alpha'', match_row ''06'' 1006 ''alpha'',
      match_row ''08'' 1008 ''alpha'']\<rparr>"

text \<open>One match created through \<open>create_match\<close>, with one player on its scoreboard.\<close>

definition db_played :: database where
  "db_played =
     (snd (Community_create_match db_alpha (Community ''alpha'') (uuid_n ''01'') 1001
             ''Red'' ''Blue'' 0 1 0 0 ''de_dust2''))
       \<lparr>scoreboard_table := [\<lparr>s_match_id = uuid_n ''01'', s_steam_id = steam_2\<rparr>],
        user_table := [\<lparr>u_steam_id = steam_2, u_name = ''Ace''\<rparr>]\<rparr>"

text \<open>Update tables for the version check.\<close>

definition db_update :: database where
  "db_update = empty_db\<lparr>update_table :=
     [\<lparr>up_version = ''1.0.0'', up_message = ''Update available''\<rparr>]\<rparr>"

definition db_update_newer :: database where
  "db_update_newer = empty_db\<lparr>update_table :=
     [\<lparr>up_version = ''2.0.0'', up_message = ''Update available''\<rparr>]\<rparr>"

section \<open>Facts about the query primitives\<close>

lemma set_join_community_api_key:
  "(c, k) \<in> set (join_community_api_key db) \<longleftrightarrow>
     c \<in> set (community_table db) \<and> k \<in> set (api_key_table db) \<and>
     k_community_name k = c_community_name c"
  by (auto simp: join_community_api_key_def)

lemma fetch_one_eq_None: "fetch_one xs = None \<longleftrightarrow> xs = []"
  by (cases xs) (simp_all add: fetch_one_def)

lemma fetch_one_filter_Some: "fetch_one (filter P xs) = Some x \<Longrightarrow> x \<in> set xs \<and> P x"
proof -
  assume "fetch_one (filter P xs) = Some x"
  then have "x \<in> set (filter P xs)"
    by (cases "filter P xs") (simp_all add: fetch_one_def)
  then show ?thesis by simp
qed

lemma fetch_one_filter_ex: "(\<exists>x. fetch_one (filter P xs) = Some x) \<longleftrightarrow> (\<exists>x\<in>set xs. P x)"
proof
  assume "\<exists>x. fetch_one (filter P xs) = Some x"
  then show "\<exists>x\<in>set xs. P x" using fetch_one_filter_Some by fastforce
next
  assume "\<exists>x\<in>set xs. P x"
  then have "filter P xs \<noteq> []" by (simp add: filter_empty_conv)
  then show "\<exists>x. fetch_one (filter P xs) = Some x"
    by (cases "filter P xs") (simp_all add: fetch_one_def)
qed

lemma fetch_one_filter_first:
  "filter P xs \<noteq> [] \<Longrightarrow> \<exists>x\<in>set xs. P x \<and> fetch_one (filter P xs) = Some x"
proof -
  assume "filter P xs \<noteq> []"
  then obtain x ys where e: "filter P xs = x # ys" by (cases "filter P xs") auto
  then have "x \<in> set (filter P xs)" by simp
  then have "x \<in> set xs" "P x" by simp_all
  moreover have "fetch_one (filter P xs) = Some x" by (simp add: e fetch_one_def)
  ultimately show ?thesis by blast
qed


section \<open>Community.get\<close>

lemma get_succeeds_iff:
  "(\<exists>m. Community_get db (Community n) = Inr m) \<longleftrightarrow> master_joined db n"
proof -
  let ?P = "\<lambda>(c, k). c_community_name c = n \<and> k_master k"
  have "(\<exists>m. Community_get db (Community n) = Inr m) \<longleftrightarrow>
        (\<exists>x. fetch_one (filter ?P (join_community_api_key db)) = Some x)"
    by (auto split: option.splits)
  also have "\<dots> \<longleftrightarrow> (\<exists>x\<in>set (join_community_api_key db). ?P x)"
    by (rule fetch_one_filter_ex)
  also have "\<dots> \<longleftrightarrow> master_joined db n"
    by (auto simp: set_join_community_api_key master_joined_def)
  finally show ?thesis .
qed

lemma get_fails_iff:
  "Community_get db (Community n) = Inl InvalidCommunity \<longleftrightarrow> \<not> master_joined db n"
proof -
  have "Community_get db (Community n) = Inl InvalidCommunity \<longleftrightarrow>
        \<not> (\<exists>m. Community_get db (Community n) = Inr m)"
    by (cases "fetch_one (filter (\<lambda>(c, k). c_community_name c = n \<and> k_master k) (join_community_api_key db))") auto
  then show ?thesis by (simp only: get_succeeds_iff)
qed

lemma get_result:
  assumes "Community_get db (Community n) = Inr m"
  shows "\<exists>c\<in>set (community_table db). \<exists>k\<in>set (api_key_table db).
           c_community_name c = n \<and> k_community_name k = n \<and> k_master k \<and>
           m = \<lparr>api_key = k_api_key k, owner_id = k_owner_id k,
                disabled = c_disabled c, community_name = n\<rparr>"
proof -
  let ?P = "\<lambda>(c, k). c_community_name c = n \<and> k_master k"
  from assms obtain c k where
    f: "fetch_one (filter ?P (join_community_api_key db)) = Some (c, k)"
    and m: "m = \<lparr>api_key = k_api_key k, owner_id = k_owner_id k,
                disabled = c_disabled c, community_name = c_community_name c\<rparr>"
    by (auto split: option.splits)
  from fetch_one_filter_Some[OF f]
  have "(c, k) \<in> set (join_community_api_key db)" and "c_community_name c = n" and "k_master k"
    by auto
  with m show ?thesis
    by (auto simp: set_join_community_api_key)
qed

lemma master_joined_flags:
  "master_joined (db\<lparr>community_table := map (\<lambda>c. c\<lparr>c_disabled := f c\<rparr>) (community_table db)\<rparr>) n
     \<longleftrightarrow> master_joined db n"
  by (simp add: master_joined_def)

text \<open>
  Claim C4. For every community name, \<open>Community.get\<close> returns a summary exactly when a
  community row of that name joins with a master key row, and raises \<open>InvalidCommunity\<close>
  exactly when no such joined row exists. The summary is built from a joined row: the key
  and owner of the master key row, the disabled flag and name of the community row. The
  disabled flag plays no part: rewriting the flags of all community rows does not change
  whether a joined row exists.
\<close>

theorem Community_get_joined_row:
  "((\<exists>m. Community_get db (Community n) = Inr m) \<longleftrightarrow> master_joined db n)
   \<and> (Community_get db (Community n) = Inl InvalidCommunity \<longleftrightarrow> \<not> master_joined db n)
   \<and> (\<forall>m. Community_get db (Community n) = Inr m \<longrightarrow>
         (\<exists>c\<in>set (community_table db). \<exists>k\<in>set (api_key_table db).
            c_community_name c = n \<and> k_community_name k = n \<and> k_master k \<and>
            m = \<lparr>api_key = k_api_key k, owner_id = k_owner_id k,
                 disabled = c_disabled c, community_name = n\<rparr>))
   \<and> (\<forall>f. master_joined
              (db\<lparr>community_table := map (\<lambda>c. c\<lparr>c_disabled := f c\<rparr>) (community_table db)\<rparr>) n
            \<longleftrightarrow> master_joined db n)"
proof (intro conjI allI impI)
  show "(\<exists>m. Community_get db (Community n) = Inr m) \<longleftrightarrow> master_joined db n"
    by (rule get_succeeds_iff)
next
  show "Community_get db (Community n) = Inl InvalidCommunity \<longleftrightarrow> \<not> master_joined db n"
    by (rule get_fails_iff)
next
  fix m assume "Community_get db (Community n) = Inr m"
  then show "\<exists>c\<in>set (community_table db). \<exists>k\<in>set (api_key_table db).
            c_community_name c = n \<and> k_community_name k = n \<and> k_master k \<and>
            m = \<lparr>api_key = k_api_key k, owner_id = k_owner_id k,
                 disabled = c_disabled c, community_name = n\<rparr>"
    by (rule get_result)
next
  fix f
  show "master_joined
          (db\<lparr>community_table := map (\<lambda>c. c\<lparr>c_disabled := f c\<rparr>) (community_table db)\<rparr>) n
        \<longleftrightarrow> master_joined db n"
    by (rule master_joined_flags)
qed

text \<open>
  The disabled community of the example is still found, with its flag set, and a name
  without a community row is not.
\<close>

theorem Community_get_joined_row_witness:
  "master_joined (Community_disable db_alpha (Community ''alpha'')) ''alpha''
   \<and> (\<exists>m. Community_get (Community_disable db_alpha (Community ''alpha'')) (Community ''alpha'')
            = Inr m \<and> disabled m \<and> community_name m = ''alpha'')
   \<and> \<not> master_joined db_alpha ''beta''
   \<and> Community_get db_alpha (Community ''beta'') = Inl InvalidCommunity"
proof -
  define dbx where "dbx = Community_disable db_alpha (Community ''alpha'')"
  have ct: "community_table dbx = [alpha_row\<lparr>c_disabled := True\<rparr>]"
    by (simp add: dbx_def db_alpha_def empty_db_def alpha_row_def)
  have kt: "api_key_table dbx = [alpha_master, alpha_service]"
    by (simp add: dbx_def db_alpha_def empty_db_def)
  note t = Community_get_joined_row[of dbx "''alpha''"]
  have j: "master_joined dbx ''alpha''"
    unfolding master_joined_def ct kt by (simp add: alpha_row_def alpha_master_def)
  with t[THEN conjunct1] obtain m where m: "Community_get dbx (Community ''alpha'') = Inr m"
    by blast
  from t[THEN conjunct2, THEN conjunct2, THEN conjunct1, rule_format, OF m]
  obtain c k where c: "c \<in> set (community_table dbx)" and "k \<in> set (api_key_table dbx)"
    and mk: "m = \<lparr>api_key = k_api_key k, owner_id = k_owner_id k,
                  disabled = c_disabled c, community_name = ''alpha''\<rparr>"
    by blast
  from c have "c_disabled c" unfolding ct by simp
  with mk have d: "disabled m" "community_name m = ''alpha''" by simp_all
  have nb: "\<not> master_joined db_alpha ''beta''"
    by (simp add: master_joined_def db_alpha_def empty_db_def alpha_row_def)
  with Community_get_joined_row[of db_alpha "''beta''", THEN conjunct2, THEN conjunct1]
  have "Community_get db_alpha (Community ''beta'') = Inl InvalidCommunity" by blast
  with j m d nb show ?thesis unfolding dbx_def by blast
qed

section \<open>api_key_to_community\<close>

lemma api_key_to_community_some:
  assumes "\<exists>c. key_of_enabled db key c"
  shows "\<exists>c k. c \<in> set (community_table db) \<and> k \<in> set (api_key_table db) \<and>
           k_api_key k = key \<and> k_community_name k = c_community_name c \<and> \<not> c_disabled c \<and>
           api_key_to_community db key = Inr (Community (c_community_name c), k_master k)"
proof -
  let ?P = "\<lambda>(c, k). k_api_key k = key \<and> \<not> c_disabled c"
  from assms obtain c k where
    "c \<in> set (community_table db)" "\<not> c_disabled c" "k \<in> set (api_key_table db)"
    "k_api_key k = key" "k_community_name k = c_community_name c"
    by (auto simp: key_of_enabled_def)
  then have "(c, k) \<in> set (join_community_api_key db)" and "?P (c, k)"
    by (simp_all add: set_join_community_api_key)
  then have "filter ?P (join_community_api_key db) \<noteq> []"
    by (auto simp: filter_empty_conv)
  from fetch_one_filter_first[OF this] obtain c' k' where
    m: "(c', k') \<in> set (join_community_api_key db)" and p: "?P (c', k')"
    and f: "fetch_one (filter ?P (join_community_api_key db)) = Some (c', k')"
    by auto
  from f have "api_key_to_community db key = Inr (Community (c_community_name c'), k_master k')"
    by (simp add: api_key_to_community_def)
  with m p show ?thesis
    by (auto simp: set_join_community_api_key)
qed

lemma api_key_to_community_none:
  assumes "\<not> (\<exists>c. key_of_enabled db key c)"
  shows "api_key_to_community db key = Inl InvalidAPIKey"
proof -
  let ?P = "\<lambda>(c, k). k_api_key k = key \<and> \<not> c_disabled c"
  have "filter ?P (join_community_api_key db) = []"
    using assms
    by (fastforce simp: filter_empty_conv set_join_community_api_key key_of_enabled_def)
  then show ?thesis by (simp add: api_key_to_community_def fetch_one_def)
qed

text \<open>Where key strings and community names are unique, at most one community holds a key.\<close>

lemma key_of_enabled_unique:
  assumes "keys_unique db" "names_unique db"
    and "key_of_enabled db key c" "key_of_enabled db key c'"
  shows "c = c'"
proof -
  from assms(3) obtain k where k: "k \<in> set (api_key_table db)" "k_api_key k = key"
      "k_community_name k = c_community_name c" and c: "c \<in> set (community_table db)"
    by (auto simp: key_of_enabled_def)
  from assms(4) obtain k' where k': "k' \<in> set (api_key_table db)" "k_api_key k' = key"
      "k_community_name k' = c_community_name c'" and c': "c' \<in> set (community_table db)"
    by (auto simp: key_of_enabled_def)
  from assms(1) have "inj_on k_api_key (set (api_key_table db))"
    by (simp add: keys_unique_def distinct_map)
  with k k' have "k = k'" by (auto dest: inj_onD)
  with k k' have "c_community_name c = c_community_name c'" by simp
  moreover from assms(2) have "inj_on c_community_name (set (community_table db))"
    by (simp add: names_unique_def distinct_map)
  ultimately show ?thesis using c c' by (auto dest: inj_onD)
qed

text \<open>
  Claim C5 as stated fails where more than one enabled community holds the key: the
  lookup takes the first joined row and counts nothing. With two enabled communities
  whose key rows hold the same string, not exactly one community has the key, and the
  string resolves to the first of them.
\<close>

theorem api_key_shared_counterexample:
  "key_of_enabled db_shared key_1 alpha_row
   \<and> key_of_enabled db_shared key_1 beta_row
   \<and> alpha_row \<noteq> beta_row
   \<and> api_key_to_community db_shared key_1 = Inr (Community ''alpha'', True)"
  by (simp add: key_of_enabled_def api_key_to_community_def join_community_api_key_def
      fetch_one_def db_shared_def empty_db_def alpha_row_def beta_row_def alpha_master_def
      beta_shared_def)

text \<open>
  Claim C5, amended. For every key string, \<open>api_key_to_community\<close> succeeds if and only
  if at least one enabled community has a key row holding the given string; it then
  returns the handle of such a community and the master flag of such a key row of it, and
  in every other case it raises \<open>InvalidAPIKey\<close>.
\<close>

theorem api_key_to_community_at_least_one:
  "((\<exists>c. key_of_enabled db key c) \<longrightarrow>
      (\<exists>c k. c \<in> set (community_table db) \<and> k \<in> set (api_key_table db) \<and>
         k_api_key k = key \<and> k_community_name k = c_community_name c \<and> \<not> c_disabled c \<and>
         api_key_to_community db key = Inr (Community (c_community_name c), k_master k)))
   \<and> (\<not> (\<exists>c. key_of_enabled db key c) \<longrightarrow>
      api_key_to_community db key = Inl InvalidAPIKey)"
proof (intro conjI impI)
  assume "\<exists>c. key_of_enabled db key c"
  then show "\<exists>c k. c \<in> set (community_table db) \<and> k \<in> set (api_key_table db) \<and>
               k_api_key k = key \<and> k_community_name k = c_community_name c \<and> \<not> c_disabled c \<and>
               api_key_to_community db key = Inr (Community (c_community_name c), k_master k)"
    by (rule api_key_to_community_some)
next
  assume "\<not> (\<exists>c. key_of_enabled db key c)"
  then show "api_key_to_community db key = Inl InvalidAPIKey"
    by (rule api_key_to_community_none)
qed

text \<open>
  On the example, the service key resolves to its community with the master flag off, and
  a string that is no stored key is refused.
\<close>

theorem api_key_to_community_at_least_one_witness:
  "key_of_enabled db_alpha key_2 alpha_row
   \<and> api_key_to_community db_alpha key_2 = Inr (Community ''alpha'', False)
   \<and> \<not> (\<exists>c. key_of_enabled db_alpha key_3 c)
   \<and> api_key_to_community db_alpha key_3 = Inl InvalidAPIKey"
proof -
  have e: "key_of_enabled db_alpha key_2 alpha_row"
    by (simp add: key_of_enabled_def db_alpha_def empty_db_def alpha_row_def
        alpha_master_def alpha_service_def key_1_def key_2_def)
  then have "\<exists>c. key_of_enabled db_alpha key_2 c" ..
  with api_key_to_community_at_least_one[of db_alpha key_2]
  obtain c k where c: "c \<in> set (community_table db_alpha)"
    and k: "k \<in> set (api_key_table db_alpha)" "k_api_key k = key_2"
    and r: "api_key_to_community db_alpha key_2 = Inr (Community (c_community_name c), k_master k)"
    by blast
  from c have "c_community_name c = ''alpha''"
    by (simp add: db_alpha_def empty_db_def alpha_row_def)
  moreover from k have "k_master k = False"
    by (auto simp: db_alpha_def empty_db_def alpha_master_def alpha_service_def key_1_def key_2_def)
  ultimately have r': "api_key_to_community db_alpha key_2 = Inr (Community ''alpha'', False)"
    using r by simp
  have n: "\<not> key_of_enabled db_alpha key_3 c" for c
    by (simp add: key_of_enabled_def db_alpha_def empty_db_def alpha_master_def alpha_service_def
        key_1_def key_2_def key_3_def)
  then have none: "\<not> (\<exists>c. key_of_enabled db_alpha key_3 c)" by blast
  with api_key_to_community_at_least_one[of db_alpha key_3]
  have "api_key_to_community db_alpha key_3 = Inl InvalidAPIKey" by blast
  with e r' none show ?thesis by blast
qed

section \<open>Community.disable\<close>









section \<open>create_community\<close>

lemma owner_exists_iff: "owner_exists db steam_id \<longleftrightarrow> owns_enabled db steam_id"
  by (auto simp: owner_exists_def owns_enabled_def filter_empty_conv)

lemma create_community_already:
  assumes "owns_enabled db sid"
  shows "create_community db fc fk nc nk tok sid name dis dem = (Inl AlreadyCommunity, db)"
  using assms by (simp add: create_community_def owner_exists_iff)

lemma create_community_insert_fails:
  assumes "\<not> owns_enabled db sid"
    and "insert_community db fc
           \<lparr>c_community_name = name, c_owner_id = sid, c_disabled = dis,
            c_demos = dem, c_timestamp = nc\<rparr> = Inl e"
  shows "create_community db fc fk nc nk tok sid name dis dem = (Inl CommunityTaken, db)"
  using assms by (simp add: create_community_def owner_exists_iff)

lemma insert_community_taken:
  assumes "name \<in> set (map c_community_name (community_table db))"
  shows "\<exists>e. insert_community db fc
           \<lparr>c_community_name = name, c_owner_id = sid, c_disabled = dis,
            c_demos = dem, c_timestamp = nc\<rparr> = Inl e"
  using assms by (cases fc) (simp_all add: insert_community_def)

lemma create_community_name_taken:
  assumes "\<not> owns_enabled db sid"
    and "name \<in> set (map c_community_name (community_table db))"
  shows "create_community db fc fk nc nk tok sid name dis dem = (Inl CommunityTaken, db)"
proof -
  from insert_community_taken[OF assms(2)] obtain e where
    "insert_community db fc
           \<lparr>c_community_name = name, c_owner_id = sid, c_disabled = dis,
            c_demos = dem, c_timestamp = nc\<rparr> = Inl e" by blast
  with assms(1) show ?thesis by (rule create_community_insert_fails)
qed

lemma create_community_inserts:
  assumes "\<not> owns_enabled db sid"
    and "name \<notin> set (map c_community_name (community_table db))"
  shows "create_community db None None nc nk tok sid name dis dem =
           (Inr (\<lparr>api_key = tok, owner_id = sid, disabled = dis, community_name = name\<rparr>,
                 Community name),
            db\<lparr>community_table := community_table db @
                  [\<lparr>c_community_name = name, c_owner_id = sid, c_disabled = dis,
                    c_demos = dem, c_timestamp = nc\<rparr>],
                api_key_table := api_key_table db @
                  [\<lparr>k_api_key = tok, k_owner_id = sid, k_timestamp = nk,
                    k_community_name = name, k_master = True\<rparr>]\<rparr>)"
  using assms
  by (simp add: create_community_def owner_exists_iff insert_community_def insert_api_key_def)

text \<open>
  Claim C2. For every owner identity and name, \<open>create_community\<close> raises
  \<open>AlreadyCommunity\<close> when the identity owns a community that is not disabled, leaving
  the database as it was; otherwise it raises \<open>CommunityTaken\<close> when the name is
  already stored (the insert violates the uniqueness of names), again leaving the
  database as it was; otherwise, when neither insert meets a failure of the persistence
  layer, it appends exactly one community row and then exactly one master key row for it
  and returns the summary with the handle.
\<close>

theorem create_community_cases:
  "(owns_enabled db sid \<longrightarrow>
      create_community db fc fk nc nk tok sid name dis dem = (Inl AlreadyCommunity, db))
   \<and> (\<not> owns_enabled db sid \<and> name \<in> set (map c_community_name (community_table db)) \<longrightarrow>
      create_community db fc fk nc nk tok sid name dis dem = (Inl CommunityTaken, db))
   \<and> (\<not> owns_enabled db sid \<and> name \<notin> set (map c_community_name (community_table db)) \<longrightarrow>
      create_community db None None nc nk tok sid name dis dem =
        (Inr (\<lparr>api_key = tok, owner_id = sid, disabled = dis, community_name = name\<rparr>,
              Community name),
         db\<lparr>community_table := community_table db @
               [\<lparr>c_community_name = name, c_owner_id = sid, c_disabled = dis,
                 c_demos = dem, c_timestamp = nc\<rparr>],
             api_key_table := api_key_table db @
               [\<lparr>k_api_key = tok, k_owner_id = sid, k_timestamp = nk,
                 k_community_name = name, k_master = True\<rparr>]\<rparr>))"
  using create_community_already[of db sid fc fk nc nk tok name dis dem]
    create_community_name_taken[of db sid name fc fk nc nk tok dis dem]
    create_community_inserts[of db sid name nc nk tok dis dem]
  by blast

text \<open>
  From the empty database the first call creates the example community; a second call of
  the same owner and a call of another owner for the same name are refused.
\<close>

theorem create_community_cases_witness:
  "\<not> owns_enabled empty_db steam_1
   \<and> ''alpha'' \<notin> set (map c_community_name (community_table empty_db))
   \<and> create_community empty_db None None 100 101 key_1 steam_1 ''alpha'' False True =
       (Inr (\<lparr>api_key = key_1, owner_id = steam_1, disabled = False, community_name = ''alpha''\<rparr>,
             Community ''alpha''),
        empty_db\<lparr>community_table := [alpha_row], api_key_table := [alpha_master]\<rparr>)
   \<and> owns_enabled db_alpha steam_1
   \<and> create_community db_alpha None None 200 201 key_3 steam_1 ''beta'' False True =
       (Inl AlreadyCommunity, db_alpha)
   \<and> \<not> owns_enabled db_alpha steam_2
   \<and> ''alpha'' \<in> set (map c_community_name (community_table db_alpha))
   \<and> create_community db_alpha None None 200 201 key_3 steam_2 ''alpha'' False True =
       (Inl CommunityTaken, db_alpha)"
proof -
  have a: "\<not> owns_enabled empty_db steam_1"
    by (simp add: owns_enabled_def empty_db_def)
  have b: "''alpha'' \<notin> set (map c_community_name (community_table empty_db))"
    by (simp add: empty_db_def)
  from a b create_community_cases[of empty_db steam_1 None None 100 101 key_1 "''alpha''" False True]
  have c: "create_community empty_db None None 100 101 key_1 steam_1 ''alpha'' False True =
       (Inr (\<lparr>api_key = key_1, owner_id = steam_1, disabled = False, community_name = ''alpha''\<rparr>,
             Community ''alpha''),
        empty_db\<lparr>community_table := community_table empty_db @
               [\<lparr>c_community_name = ''alpha'', c_owner_id = steam_1, c_disabled = False,
                 c_demos = True, c_timestamp = 100\<rparr>],
             api_key_table := api_key_table empty_db @
               [\<lparr>k_api_key = key_1, k_owner_id = steam_1, k_timestamp = 101,
                 k_community_name = ''alpha'', k_master = True\<rparr>]\<rparr>)"
    by blast
  have c': "create_community empty_db None None 100 101 key_1 steam_1 ''alpha'' False True =
       (Inr (\<lparr>api_key = key_1, owner_id = steam_1, disabled = False, community_name = ''alpha''\<rparr>,
             Community ''alpha''),
        empty_db\<lparr>community_table := [alpha_row], api_key_table := [alpha_master]\<rparr>)"
    unfolding c by (simp add: empty_db_def alpha_row_def alpha_master_def)
  have d: "owns_enabled db_alpha steam_1"
    by (simp add: owns_enabled_def db_alpha_def empty_db_def alpha_row_def)
  with create_community_cases[of db_alpha steam_1 None None 200 201 key_3 "''beta''" False True]
  have e: "create_community db_alpha None None 200 201 key_3 steam_1 ''beta'' False True =
       (Inl AlreadyCommunity, db_alpha)" by blast
  have f: "\<not> owns_enabled db_alpha steam_2"
    by (simp add: owns_enabled_def db_alpha_def empty_db_def alpha_row_def steam_1_def steam_2_def)
  have g: "''alpha'' \<in> set (map c_community_name (community_table db_alpha))"
    by (simp add: db_alpha_def empty_db_def alpha_row_def)
  from f g create_community_cases[of db_alpha steam_2 None None 200 201 key_3 "''alpha''" False True]
  have h: "create_community db_alpha None None 200 201 key_3 steam_2 ''alpha'' False True =
       (Inl CommunityTaken, db_alpha)" by blast
  from a b c' d e f g h show ?thesis by blast
qed

text \<open>
  Claim C3 on the code. The handler around the community insert catches every exception,
  not only the violated uniqueness of the name: on the empty database, where the name is
  free, a failure of the persistence layer during that insert is raised as
  \<open>CommunityTaken\<close> and does not reach the caller. The same failure during the key
  insert, which is outside the handler, reaches the caller as it is.
\<close>

theorem create_community_masks_other_failure:
  "''alpha'' \<notin> set (map c_community_name (community_table empty_db))
   \<and> fst (create_community empty_db (Some OperationalError) None 100 101 key_1 steam_1 ''alpha''
        False True) = Inl CommunityTaken
   \<and> fst (create_community empty_db None (Some OperationalError) 100 101 key_1 steam_1 ''alpha''
        False True) = Inl OperationalError"
  by (simp add: create_community_def owner_exists_def insert_community_def insert_api_key_def
      empty_db_def)

section \<open>Key rotation\<close>

text \<open>
  Both rotations rewrite the key of the selected rows and touch nothing else. The two
  facts below are stated for any selection of rows within one community.
\<close>

lemma rotate_resolves:
  assumes ct: "community_table db' = community_table db"
    and kt: "api_key_table db' =
               map (\<lambda>k. if sel k then k\<lparr>k_api_key := token\<rparr> else k) (api_key_table db)"
    and seln: "\<And>k. k \<in> set (api_key_table db) \<Longrightarrow> sel k \<Longrightarrow> k_community_name k = n"
    and flag: "\<And>k. k \<in> set (api_key_table db) \<Longrightarrow> sel k \<Longrightarrow> k_master k = m"
    and fresh: "token \<notin> set (map k_api_key (api_key_table db))"
    and c: "c \<in> set (community_table db)" "c_community_name c = n" "\<not> c_disabled c"
    and k: "k \<in> set (api_key_table db)" "sel k"
  shows "api_key_to_community db' token = Inr (Community n, m)"
proof -
  let ?g = "\<lambda>k. if sel k then k\<lparr>k_api_key := token\<rparr> else k"
  from k have "?g k \<in> set (api_key_table db')" unfolding kt set_map by (rule_tac imageI)
  moreover from k have "k_api_key (?g k) = token" by simp
  moreover from k seln c have "k_community_name (?g k) = c_community_name c" by simp
  ultimately have "key_of_enabled db' token c"
    unfolding key_of_enabled_def ct using c by blast
  then have "\<exists>c. key_of_enabled db' token c" ..
  from api_key_to_community_some[OF this] obtain c2 k2 where
    k2: "k2 \<in> set (api_key_table db')" "k_api_key k2 = token"
      "k_community_name k2 = c_community_name c2"
    and "c2 \<in> set (community_table db')"
    and r: "api_key_to_community db' token = Inr (Community (c_community_name c2), k_master k2)"
    by blast
  from k2(1) obtain k0 where k0: "k0 \<in> set (api_key_table db)" "k2 = ?g k0"
    unfolding kt set_map by blast
  have s: "sel k0"
  proof (rule ccontr)
    assume "\<not> sel k0"
    with k0 k2(2) have "k_api_key k0 = token" by simp
    with k0(1) fresh show False by force
  qed
  with k0 have "k_community_name k2 = k_community_name k0" "k_master k2 = k_master k0"
    by simp_all
  with seln[OF k0(1) s] flag[OF k0(1) s] k2(3) r show ?thesis by simp
qed

lemma rotate_old_fails:
  assumes kt: "api_key_table db' =
               map (\<lambda>k. if sel k then k\<lparr>k_api_key := token\<rparr> else k) (api_key_table db)"
    and ku: "keys_unique db"
    and fresh: "token \<notin> set (map k_api_key (api_key_table db))"
    and k: "k \<in> set (api_key_table db)" "sel k"
  shows "api_key_to_community db' (k_api_key k) = Inl InvalidAPIKey"
proof (rule api_key_to_community_none, rule notI)
  let ?g = "\<lambda>k. if sel k then k\<lparr>k_api_key := token\<rparr> else k"
  assume "\<exists>c. key_of_enabled db' (k_api_key k) c"
  then obtain k2 where k2: "k2 \<in> set (api_key_table db')" "k_api_key k2 = k_api_key k"
    unfolding key_of_enabled_def by blast
  from k2(1) obtain k0 where k0: "k0 \<in> set (api_key_table db)" "k2 = ?g k0"
    unfolding kt set_map by blast
  from ku have inj: "inj_on k_api_key (set (api_key_table db))"
    by (simp add: keys_unique_def distinct_map)
  show False
  proof (cases "sel k0")
    case True
    with k0 k2(2) have "token = k_api_key k" by simp
    with k(1) fresh show False by force
  next
    case False
    with k0 k2(2) have "k_api_key k0 = k_api_key k" by simp
    from inj_onD[OF inj this k0(1) k(1)] False k(2) show False by simp
  qed
qed

lemma regenerate_resolves:
  assumes ku: "keys_unique db"
    and fresh: "token \<notin> set (map k_api_key (api_key_table db))"
    and c: "c \<in> set (community_table db)" "\<not> c_disabled c"
    and k: "k \<in> set (api_key_table db)" "k_community_name k = c_community_name c"
  shows "api_key_to_community
           (snd (Community_regenerate db (Community (c_community_name c)) (k_api_key k) token))
           token = Inr (Community (c_community_name c), k_master k)"
    and "api_key_to_community
           (snd (Community_regenerate db (Community (c_community_name c)) (k_api_key k) token))
           (k_api_key k) = Inl InvalidAPIKey"
proof -
  let ?n = "c_community_name c"
  let ?sel = "\<lambda>k'. k_community_name k' = ?n \<and> k_api_key k' = k_api_key k"
  let ?db' = "snd (Community_regenerate db (Community ?n) (k_api_key k) token)"
  have ct: "community_table ?db' = community_table db" by simp
  have kt: "api_key_table ?db' =
              map (\<lambda>k'. if ?sel k' then k'\<lparr>k_api_key := token\<rparr> else k') (api_key_table db)"
    by simp
  from ku have inj: "inj_on k_api_key (set (api_key_table db))"
    by (simp add: keys_unique_def distinct_map)
  have flag: "k_master k' = k_master k" if "k' \<in> set (api_key_table db)" "?sel k'" for k'
    using inj_onD[OF inj _ that(1) k(1)] that(2) by simp
  from k have sk: "?sel k" by simp
  show "api_key_to_community ?db' token = Inr (Community ?n, k_master k)"
    by (rule rotate_resolves[where sel = ?sel, OF ct kt _ flag fresh c(1) refl c(2) k(1) sk]) simp_all
  show "api_key_to_community ?db' (k_api_key k) = Inl InvalidAPIKey"
    by (rule rotate_old_fails[where sel = ?sel, OF kt ku fresh k(1) sk])
qed

lemma regenerate_master_resolves:
  assumes ku: "keys_unique db"
    and fresh: "token \<notin> set (map k_api_key (api_key_table db))"
    and c: "c \<in> set (community_table db)" "\<not> c_disabled c"
    and k: "k \<in> set (api_key_table db)" "k_community_name k = c_community_name c" "k_master k"
  shows "api_key_to_community
           (snd (Community_regenerate_master db (Community (c_community_name c)) token))
           token = Inr (Community (c_community_name c), True)"
    and "api_key_to_community
           (snd (Community_regenerate_master db (Community (c_community_name c)) token))
           (k_api_key k) = Inl InvalidAPIKey"
proof -
  let ?n = "c_community_name c"
  let ?sel = "\<lambda>k'. k_community_name k' = ?n \<and> k_master k'"
  let ?db' = "snd (Community_regenerate_master db (Community ?n) token)"
  have ct: "community_table ?db' = community_table db" by simp
  have kt: "api_key_table ?db' =
              map (\<lambda>k'. if ?sel k' then k'\<lparr>k_api_key := token\<rparr> else k') (api_key_table db)"
    by simp
  from k have sk: "?sel k" by simp
  show "api_key_to_community ?db' token = Inr (Community ?n, True)"
    by (rule rotate_resolves[where sel = ?sel, OF ct kt _ _ fresh c(1) refl c(2) k(1) sk]) simp_all
  show "api_key_to_community ?db' (k_api_key k) = Inl InvalidAPIKey"
    by (rule rotate_old_fails[where sel = ?sel, OF kt ku fresh k(1) sk])
qed

text \<open>
  Claim C7 as stated fails. When the old key given to \<open>regenerate\<close> is not stored for
  the community, no row is rewritten and the returned key resolves to nothing; when the
  community is disabled, the returned key of \<open>regenerate_master\<close> is stored and still
  refused; and nothing in the code compares the drawn token with the stored keys, so a
  draw equal to the stored master key is returned and that key still resolves.
\<close>

theorem rotation_counterexample:
  "fst (Community_regenerate db_alpha (Community ''alpha'') key_3 key_4) = key_4
   \<and> api_key_to_community
        (snd (Community_regenerate db_alpha (Community ''alpha'') key_3 key_4)) key_4
       = Inl InvalidAPIKey
   \<and> fst (Community_regenerate_master (Community_disable db_alpha (Community ''alpha''))
            (Community ''alpha'') key_4) = key_4
   \<and> api_key_to_community
        (snd (Community_regenerate_master (Community_disable db_alpha (Community ''alpha''))
               (Community ''alpha'') key_4)) key_4
       = Inl InvalidAPIKey
   \<and> k_api_key alpha_master = key_1
   \<and> fst (Community_regenerate_master db_alpha (Community ''alpha'') key_1) = key_1
   \<and> api_key_to_community
        (snd (Community_regenerate_master db_alpha (Community ''alpha'') key_1)) key_1
       = Inr (Community ''alpha'', True)"
  by (simp add: api_key_to_community_def join_community_api_key_def fetch_one_def
      db_alpha_def empty_db_def alpha_row_def alpha_master_def alpha_service_def
      key_1_def key_2_def key_3_def key_4_def)

text \<open>
  Claim C7, amended. On a database whose key strings are unique, for an enabled community
  and a key row of it, when the drawn token differs from every stored key:
  \<open>regenerate\<close> called with the key of that row returns the token, the token differs
  from the replaced key, the token resolves through \<open>api_key_to_community\<close> to the
  community with the master flag of the row, and the replaced key raises
  \<open>InvalidAPIKey\<close>; when the row is a master key row the same holds of
  \<open>regenerate_master\<close>, the token resolving with the master flag on.
\<close>

theorem rotation_with_fresh_token:
  assumes "keys_unique db"
    and "token \<notin> set (map k_api_key (api_key_table db))"
    and "c \<in> set (community_table db)" and "\<not> c_disabled c"
    and "k \<in> set (api_key_table db)" and "k_community_name k = c_community_name c"
  shows "fst (Community_regenerate db (Community (c_community_name c)) (k_api_key k) token) = token
       \<and> token \<noteq> k_api_key k
       \<and> api_key_to_community
           (snd (Community_regenerate db (Community (c_community_name c)) (k_api_key k) token))
           token = Inr (Community (c_community_name c), k_master k)
       \<and> api_key_to_community
           (snd (Community_regenerate db (Community (c_community_name c)) (k_api_key k) token))
           (k_api_key k) = Inl InvalidAPIKey
       \<and> (k_master k \<longrightarrow>
            fst (Community_regenerate_master db (Community (c_community_name c)) token) = token
          \<and> api_key_to_community
              (snd (Community_regenerate_master db (Community (c_community_name c)) token))
              token = Inr (Community (c_community_name c), True)
          \<and> api_key_to_community
              (snd (Community_regenerate_master db (Community (c_community_name c)) token))
              (k_api_key k) = Inl InvalidAPIKey)"
proof (intro conjI impI)
  show "fst (Community_regenerate db (Community (c_community_name c)) (k_api_key k) token) = token"
    by simp
  from assms(2,5) show "token \<noteq> k_api_key k" by force
  show "api_key_to_community
           (snd (Community_regenerate db (Community (c_community_name c)) (k_api_key k) token))
           token = Inr (Community (c_community_name c), k_master k)"
    by (rule regenerate_resolves(1)[OF assms])
  show "api_key_to_community
           (snd (Community_regenerate db (Community (c_community_name c)) (k_api_key k) token))
           (k_api_key k) = Inl InvalidAPIKey"
    by (rule regenerate_resolves(2)[OF assms])
next
  show "fst (Community_regenerate_master db (Community (c_community_name c)) token) = token"
    by simp
next
  assume m: "k_master k"
  show "api_key_to_community
              (snd (Community_regenerate_master db (Community (c_community_name c)) token))
              token = Inr (Community (c_community_name c), True)"
    by (rule regenerate_master_resolves(1)[OF assms m])
  show "api_key_to_community
              (snd (Community_regenerate_master db (Community (c_community_name c)) token))
              (k_api_key k) = Inl InvalidAPIKey"
    by (rule regenerate_master_resolves(2)[OF assms m])
qed

text \<open>The master key of the example, rotated either way with a fresh token.\<close>

theorem rotation_with_fresh_token_witness:
  "keys_unique db_alpha
   \<and> key_3 \<notin> set (map k_api_key (api_key_table db_alpha))
   \<and> alpha_row \<in> set (community_table db_alpha) \<and> \<not> c_disabled alpha_row
   \<and> alpha_master \<in> set (api_key_table db_alpha)
   \<and> k_community_name alpha_master = c_community_name alpha_row
   \<and> k_master alpha_master
   \<and> key_3 \<noteq> key_1
   \<and> api_key_to_community
        (snd (Community_regenerate db_alpha (Community ''alpha'') key_1 key_3)) key_3
       = Inr (Community ''alpha'', True)
   \<and> api_key_to_community
        (snd (Community_regenerate db_alpha (Community ''alpha'') key_1 key_3)) key_1
       = Inl InvalidAPIKey
   \<and> api_key_to_community
        (snd (Community_regenerate_master db_alpha (Community ''alpha'') key_3)) key_3
       = Inr (Community ''alpha'', True)
   \<and> api_key_to_community
        (snd (Community_regenerate_master db_alpha (Community ''alpha'') key_3)) key_1
       = Inl InvalidAPIKey"
proof -
  have ku: "keys_unique db_alpha"
    by (simp add: keys_unique_def db_alpha_def empty_db_def alpha_master_def alpha_service_def
        key_1_def key_2_def)
  have fr: "key_3 \<notin> set (map k_api_key (api_key_table db_alpha))"
    by (simp add: db_alpha_def empty_db_def alpha_master_def alpha_service_def
        key_1_def key_2_def key_3_def)
  have c: "alpha_row \<in> set (community_table db_alpha)"
    by (simp add: db_alpha_def empty_db_def)
  have en: "\<not> c_disabled alpha_row" by (simp add: alpha_row_def)
  have k: "alpha_master \<in> set (api_key_table db_alpha)"
    by (simp add: db_alpha_def empty_db_def)
  have kn: "k_community_name alpha_master = c_community_name alpha_row"
    by (simp add: alpha_master_def alpha_row_def)
  have km: "k_master alpha_master" by (simp add: alpha_master_def)
  have nm: "c_community_name alpha_row = ''alpha''" by (simp add: alpha_row_def)
  have kk: "k_api_key alpha_master = key_1" by (simp add: alpha_master_def)
  note t = rotation_with_fresh_token[OF ku fr c en k kn, unfolded nm kk]
  from t km[unfolded kk] have
    "key_3 \<noteq> key_1"
    "api_key_to_community
        (snd (Community_regenerate db_alpha (Community ''alpha'') key_1 key_3)) key_3
       = Inr (Community ''alpha'', k_master alpha_master)"
    "api_key_to_community
        (snd (Community_regenerate db_alpha (Community ''alpha'') key_1 key_3)) key_1
       = Inl InvalidAPIKey"
    "k_master alpha_master \<longrightarrow> api_key_to_community
        (snd (Community_regenerate_master db_alpha (Community ''alpha'') key_3)) key_3
       = Inr (Community ''alpha'', True)"
    "k_master alpha_master \<longrightarrow> api_key_to_community
        (snd (Community_regenerate_master db_alpha (Community ''alpha'') key_3)) key_1
       = Inl InvalidAPIKey"
    by blast+
  with ku fr c en k kn km show ?thesis by simp
qed

section \<open>Community.matches\<close>

lemma mset_order_by_timestamp: "mset (order_by_timestamp desc rows) = mset rows"
  by (simp add: order_by_timestamp_def)

lemma in_order_True: "in_order True = (\<lambda>a b. timestamp b \<le> timestamp a)"
  by (simp add: fun_eq_iff in_order_def)

lemma in_order_False: "in_order False = (\<lambda>a b. timestamp a \<le> timestamp b)"
  by (simp add: fun_eq_iff in_order_def)

lemma sorted_order_by_timestamp: "sorted_wrt (in_order desc) (order_by_timestamp desc rows)"
proof (cases desc)
  case True
  have "sorted (map (\<lambda>m. - timestamp m) (sort_key (\<lambda>m. - timestamp m) rows))"
    by (rule sorted_sort_key)
  then have "sorted_wrt (\<lambda>a b. - timestamp a \<le> - timestamp b) (sort_key (\<lambda>m. - timestamp m) rows)"
    by (simp only: sorted_map)
  then show ?thesis using True
    by (simp add: order_by_timestamp_def in_order_True)
next
  case False
  have "sorted (map timestamp (sort_key timestamp rows))"
    by (rule sorted_sort_key)
  then have "sorted_wrt (\<lambda>a b. timestamp a \<le> timestamp b) (sort_key timestamp rows)"
    by (simp only: sorted_map)
  then show ?thesis using False
    by (simp add: order_by_timestamp_def in_order_False)
qed

lemma matches_no_search_limit_offset:
  "Community_matches hn like db (Community n) None page limit desc =
     Inr (map (\<lambda>m. (m, Match (match_id m) n))
            (limit_offset limit (if page > 1 then (page - 1) * limit else 0)
               (order_by_timestamp desc (community_matches db n))))"
proof -
  have "map MatchModel_of (filter (\<lambda>t. t_community_name t = n) (scoreboard_total_table db)) =
        community_matches db n"
    by (simp add: community_matches_def MatchModel_of_def)
  then show ?thesis by (simp add: Let_def)
qed

lemma matches_no_search_eq:
  assumes "0 \<le> limit"
  shows "Community_matches hn like db (Community n) None page limit desc =
           Inr (map (\<lambda>m. (m, Match (match_id m) n))
                  (take (nat limit)
                     (drop (nat (if page > 1 then (page - 1) * limit else 0))
                        (order_by_timestamp desc (community_matches db n)))))"
proof -
  from assms have "\<not> limit < 0" by simp
  then show ?thesis
    unfolding matches_no_search_limit_offset by (simp add: limit_offset_def Let_def)
qed

lemma newest_first:
  assumes s: "sorted_wrt (in_order True) full"
    and m: "m \<in> set full" "m \<notin> set (take k full)"
    and r: "r \<in> set (take k full)"
  shows "timestamp m \<le> timestamp r"
proof -
  from m have md: "m \<in> set (drop k full)"
    by (metis Un_iff append_take_drop_id set_append)
  from s have "sorted_wrt (in_order True) (take k full @ drop k full)" by simp
  then have "\<forall>x\<in>set (take k full). \<forall>y\<in>set (drop k full). in_order True x y"
    by (simp only: sorted_wrt_append) blast
  with r md have "in_order True r m" by blast
  then show ?thesis by (simp add: in_order_def)
qed

lemma twelve_eval:
  "map_sum id (map (match_id \<circ> fst))
     (Community_matches False example_like db_twelve (Community ''alpha'') None 1 5 True)
   = Inr [uuid_n ''12'', uuid_n ''11'', uuid_n ''10'', uuid_n ''09'', uuid_n ''08'']"
  by (simp add: db_twelve_def db_alpha_def empty_db_def match_row_def MatchModel_of_def
      order_by_timestamp_def limit_offset_def)

text \<open>
  Claim C8 as stated fails for a negative limit: the bound is handed to the statement
  unchecked, and with limit \<open>-1\<close> the listing of the twelve matches of the example
  returns all twelve, which is not at most \<open>-1\<close> rows.
\<close>

theorem matches_negative_limit_counterexample:
  "map_sum id (\<lambda>rows. int (length rows))
     (Community_matches False example_like db_twelve (Community ''alpha'') None 1 (- 1) True)
     = Inr 12
   \<and> \<not> (12::int) \<le> - 1"
  by (simp add: db_twelve_def db_alpha_def empty_db_def match_row_def
      order_by_timestamp_def limit_offset_def)

text \<open>
  Claim C8, amended. For every community, every page and direction and every limit that
  is not negative,
  \<open>Community.matches\<close> without a search term returns a page of a list \<open>full\<close> that
  holds exactly the summaries of the matches of this community (as a multiset) ordered by
  timestamp, descending when \<open>desc\<close> and ascending otherwise: the page skips
  \<open>(page - 1) * limit\<close> rows when \<open>page > 1\<close> and none otherwise, and then keeps at most
  \<open>limit\<close> rows. In particular, over twelve matches of the community, page 1 with limit 5
  returns exactly five of them, newest first, and no match left out is newer than a
  returned one.
\<close>

theorem matches_without_search:
  assumes "0 \<le> limit"
  shows "(\<exists>full. mset full = mset (community_matches db n)
            \<and> sorted_wrt (in_order desc) full
            \<and> Community_matches hn like db (Community n) None page limit desc =
                Inr (map (\<lambda>m. (m, Match (match_id m) n))
                       (take (nat limit)
                          (drop (nat (if page > 1 then (page - 1) * limit else 0)) full))))
       \<and> (length (community_matches db n) = 12 \<longrightarrow>
            (\<exists>rows. Community_matches hn like db (Community n) None 1 5 True =
                       Inr (map (\<lambda>m. (m, Match (match_id m) n)) rows)
               \<and> length rows = 5
               \<and> set rows \<subseteq> set (community_matches db n)
               \<and> sorted_wrt (in_order True) rows
               \<and> (\<forall>m\<in>set (community_matches db n). \<forall>r\<in>set rows.
                     m \<notin> set rows \<longrightarrow> timestamp m \<le> timestamp r)))"
proof (intro conjI impI)
  let ?full = "order_by_timestamp desc (community_matches db n)"
  have "mset ?full = mset (community_matches db n)" by (rule mset_order_by_timestamp)
  moreover have "sorted_wrt (in_order desc) ?full" by (rule sorted_order_by_timestamp)
  moreover note matches_no_search_eq[OF assms, of hn like db n page desc]
  ultimately show "\<exists>full. mset full = mset (community_matches db n)
            \<and> sorted_wrt (in_order desc) full
            \<and> Community_matches hn like db (Community n) None page limit desc =
                Inr (map (\<lambda>m. (m, Match (match_id m) n))
                       (take (nat limit)
                          (drop (nat (if page > 1 then (page - 1) * limit else 0)) full)))"
    by blast
next
  assume len: "length (community_matches db n) = 12"
  let ?full = "order_by_timestamp True (community_matches db n)"
  let ?rows = "take 5 ?full"
  have ms: "mset ?full = mset (community_matches db n)" by (rule mset_order_by_timestamp)
  then have st: "set ?full = set (community_matches db n)" by (rule mset_eq_setD)
  from ms have "length ?full = length (community_matches db n)" by (rule mset_eq_length)
  with len have l: "length ?rows = 5" by simp
  have so: "sorted_wrt (in_order True) ?full" by (rule sorted_order_by_timestamp)
  have "?full = take 5 ?full @ drop 5 ?full" by simp
  with so have "sorted_wrt (in_order True) (take 5 ?full @ drop 5 ?full)" by simp
  then have sr: "sorted_wrt (in_order True) ?rows" by (simp only: sorted_wrt_append)
  have sub: "set ?rows \<subseteq> set (community_matches db n)"
    using set_take_subset[of 5 ?full] st by simp
  have nf: "\<forall>m\<in>set (community_matches db n). \<forall>r\<in>set ?rows.
              m \<notin> set ?rows \<longrightarrow> timestamp m \<le> timestamp r"
    using newest_first[OF so] st by blast
  have "Community_matches hn like db (Community n) None 1 5 True =
          Inr (map (\<lambda>m. (m, Match (match_id m) n)) ?rows)"
    using matches_no_search_eq[of 5 hn like db n 1 True] by simp
  with l sub sr nf show "\<exists>rows. Community_matches hn like db (Community n) None 1 5 True =
                       Inr (map (\<lambda>m. (m, Match (match_id m) n)) rows)
               \<and> length rows = 5
               \<and> set rows \<subseteq> set (community_matches db n)
               \<and> sorted_wrt (in_order True) rows
               \<and> (\<forall>m\<in>set (community_matches db n). \<forall>r\<in>set rows.
                     m \<notin> set rows \<longrightarrow> timestamp m \<le> timestamp r)"
    by blast
qed

text \<open>
  The twelve matches of the example: the first page of five holds the matches with the
  five latest timestamps, latest first.
\<close>

theorem matches_without_search_witness:
  "(0::int) \<le> 5
   \<and> length (community_matches db_twelve ''alpha'') = 12
   \<and> (\<exists>rows. Community_matches False example_like db_twelve (Community ''alpha'') None 1 5 True =
                Inr (map (\<lambda>m. (m, Match (match_id m) ''alpha'')) rows)
          \<and> length rows = 5 \<and> sorted_wrt (in_order True) rows)
   \<and> map_sum id (map (match_id \<circ> fst))
        (Community_matches False example_like db_twelve (Community ''alpha'') None 1 5 True)
       = Inr [uuid_n ''12'', uuid_n ''11'', uuid_n ''10'', uuid_n ''09'', uuid_n ''08'']"
proof -
  have z: "(0::int) \<le> 5" by simp
  have l: "length (community_matches db_twelve ''alpha'') = 12"
    by (simp add: community_matches_def db_twelve_def db_alpha_def empty_db_def match_row_def)
  from matches_without_search[OF z, where db = db_twelve and n = "''alpha''" and hn = False
      and like = example_like, THEN conjunct2] l
  have "\<exists>rows. Community_matches False example_like db_twelve (Community ''alpha'') None 1 5 True =
                Inr (map (\<lambda>m. (m, Match (match_id m) ''alpha'')) rows)
          \<and> length rows = 5 \<and> sorted_wrt (in_order True) rows"
    by blast
  with z l twelve_eval show ?thesis by blast
qed

text \<open>
  Claim C10. A search term that is the empty string is falsy, so \<open>Community.matches\<close>
  takes the branch without search and returns exactly what it returns with no search term
  at all.
\<close>

theorem matches_empty_search:
  "Community_matches hn like db (Community n) (Some []) page limit desc =
   Community_matches hn like db (Community n) None page limit desc"
  by simp

text \<open>On the twelve matches of the example, the empty search term lists the same first page.\<close>

theorem matches_empty_search_witness:
  "map_sum id (map (match_id \<circ> fst))
     (Community_matches False example_like db_twelve (Community ''alpha'') (Some []) 1 5 True)
   = Inr [uuid_n ''12'', uuid_n ''11'', uuid_n ''10'', uuid_n ''09'', uuid_n ''08'']"
  unfolding matches_empty_search by (rule twelve_eval)

text \<open>
  Claim C9 on the code. The search branch scopes the rows by the column \<^verbatim>\<open>name\<close> of
  \<^verbatim>\<open>scoreboard_total\<close>, where the branch without search uses \<^verbatim>\<open>community_name\<close>, the
  column \<open>create_match\<close> writes. For a match created through \<open>create_match\<close> with a
  player on its scoreboard, the listing without search returns the match, while the
  search for its exact identifier raises \<open>AttributeError\<close> when the table declares no
  such column and returns nothing when it does, whatever the engine's \<^verbatim>\<open>LIKE\<close>.
\<close>

theorem search_by_id_misses_match:
  "Community_matches hn like db_played (Community ''alpha'') None 1 5 True =
     Inr [(MatchModel_of (match_row ''01'' 1001 ''alpha''), Match (uuid_n ''01'') ''alpha'')]
   \<and> Community_matches False like db_played (Community ''alpha'') (Some (uuid_n ''01'')) 1 5 True
       = Inl AttributeError
   \<and> Community_matches True like db_played (Community ''alpha'') (Some (uuid_n ''01'')) 1 5 True
       = Inr []"
  by (simp add: db_played_def db_alpha_def empty_db_def match_row_def MatchModel_of_def
      order_by_timestamp_def limit_offset_def join_totals_players_def uuid_n_def)

section \<open>VersionAPI.get\<close>

text \<open>
  Claim C1 on the code. With an empty cache and an update message whose version equals the
  reported one, the endpoint raises \<open>AttributeError\<close> when the query builder has no
  \<^verbatim>\<open>select_form\<close>; when it has, the body returned and cached holds the value the cache
  lookup gave, which is \<open>None\<close> on a miss, and not the message. The same body is
  returned for an update message of a later version, since the query compares with
  \<^verbatim>\<open>>=\<close>.
\<close>

theorem version_message_not_returned:
  "VersionAPI_get False Map.empty db_update ''1.0.0'' = (Inl AttributeError, Map.empty)
   \<and> VersionAPI_get True Map.empty db_update ''1.0.0'' =
       (Inr (response (JDict [(''message'', JNone)])),
        [''1.0.0'' \<mapsto> JDict [(''message'', JNone)]])
   \<and> VersionAPI_get True Map.empty db_update_newer ''1.0.0'' =
       (Inr (response (JDict [(''message'', JNone)])),
        [''1.0.0'' \<mapsto> JDict [(''message'', JNone)]])"
  by (simp add: VersionAPI_get_def cache_get_of_def fetch_update_message_def fetch_val_def
      db_update_def db_update_newer_def empty_db_def Let_def)

end
